theory Spec2Isabelle
  imports Main
begin

section \<open>Python values, truthiness and exceptions\<close>

text \<open>
  The module \<^verbatim>\<open>lmdo/cmds/lm/lambda.py\<close> is dynamically typed: configuration
  entries, SDK responses and the local variables of the wrappers hold arbitrary Python
  objects.  The values that occur are modelled by one datatype.  \<open>PBoundMethod\<close> is a
  bound method object such as \<^verbatim>\<open>self.get_zip_name\<close> (the method itself, not its result).
\<close>

datatype pyval =
    PNone
  | PBool bool
  | PInt int
  | PStr string
  | PDict "(string \<times> pyval) list"
  | PBoundMethod string

text \<open>Python's truth value testing, as used by \<^verbatim>\<open>if x\<close>, \<^verbatim>\<open>x or y\<close> and \<^verbatim>\<open>x and y\<close>.\<close>

fun truthy :: "pyval \<Rightarrow> bool" where
  "truthy PNone = False"
| "truthy (PBool b) = b"
| "truthy (PInt i) = (i \<noteq> 0)"
| "truthy (PStr s) = (s \<noteq> [])"
| "truthy (PDict d) = (d \<noteq> [])"
| "truthy (PBoundMethod m) = True"

text \<open>\<^verbatim>\<open>a or b\<close> for side-effect free operands.\<close>

definition py_or :: "pyval \<Rightarrow> pyval \<Rightarrow> pyval" where
  "py_or a b = (if truthy a then a else b)"

text \<open>
  The exceptions that can travel through the module.  \<open>ClientError\<close> stands for any
  subclass of \<^verbatim>\<open>Exception\<close> raised by a collaborator (the SDK, the storage and role
  managers, the zip utility); \<open>KeyboardInterrupt\<close> for the subclasses of
  \<^verbatim>\<open>BaseException\<close> that \<^verbatim>\<open>except Exception\<close> does not catch.
\<close>

datatype exn =
    UnboundLocalError string
  | AttributeError string
  | TypeError string
  | IndexError string
  | OSError string
  | ClientError string
  | SyntaxError string
  | KeyboardInterrupt

fun is_Exception :: "exn \<Rightarrow> bool" where
  "is_Exception KeyboardInterrupt = False"
| "is_Exception e = True"

fun is_OSError :: "exn \<Rightarrow> bool" where
  "is_OSError (OSError m) = True"
| "is_OSError e = False"

text \<open>
  \<^verbatim>\<open>x.get(k)\<close>: on a dict the value stored under \<open>k\<close>, or \<^verbatim>\<open>None\<close>; every other
  value of the model has no attribute \<^verbatim>\<open>get\<close>.
\<close>

fun py_get :: "pyval \<Rightarrow> string \<Rightarrow> exn + pyval" where
  "py_get (PDict d) k = Inr (case map_of d k of None \<Rightarrow> PNone | Some v \<Rightarrow> v)"
| "py_get v k = Inl (AttributeError ''get'')"

text \<open>\<^verbatim>\<open>d[k] = v\<close> on a dict held as an association list (insertion order kept).\<close>

fun dict_set :: "(string \<times> pyval) list \<Rightarrow> string \<Rightarrow> pyval \<Rightarrow> (string \<times> pyval) list" where
  "dict_set [] k v = [(k, v)]"
| "dict_set ((k', v') # d) k v = (if k' = k then (k, v) # d else (k', v') # dict_set d k v)"

text \<open>
  \<^verbatim>\<open>template.format(*args)\<close> for templates whose only replacement fields are
  \<^verbatim>\<open>{}\<close> (all templates of the module) and string arguments: each field takes the next
  argument; a field with no argument left raises \<^verbatim>\<open>IndexError\<close>.
\<close>

fun py_format :: "string \<Rightarrow> string list \<Rightarrow> exn + string" where
  "py_format [] args = Inr []"
| "py_format [c] args = Inr [c]"
| "py_format (c # d # rest) args =
     (if c = CHR ''{'' \<and> d = CHR ''}'' then
        (case args of
           [] \<Rightarrow> Inl (IndexError ''Replacement index out of range'')
         | a # as \<Rightarrow> (case py_format rest as of Inl e \<Rightarrow> Inl e | Inr r \<Rightarrow> Inr (a @ r)))
      else (case py_format (d # rest) args of Inl e \<Rightarrow> Inl e | Inr r \<Rightarrow> Inr (c # r)))"

section \<open>Collaborators, state and control flow\<close>

text \<open>
  Everything the module reaches outside itself is a call to a collaborator: the Lambda
  SDK client, the storage uploader \<^verbatim>\<open>S3\<close>, the role manager \<^verbatim>\<open>IAM\<close>, the zip
  utility \<^verbatim>\<open>zipper\<close>, \<^verbatim>\<open>os.remove\<close> and \<^verbatim>\<open>open(...).read()\<close>.  A call carries
  the arguments the module passes.
\<close>

type_synonym kwargs = "(string \<times> pyval) list"

datatype call =
    Lambda_add_permission string string string string
  | Lambda_remove_permission string string
  | Lambda_create_function string pyval pyval pyval pyval kwargs
  | Lambda_delete_function string kwargs
  | Lambda_invoke string kwargs
  | Lambda_list_functions kwargs
  | Lambda_update_function_code string pyval string
  | Lambda_get_function string kwargs
  | S3_upload_file pyval pyval pyval
  | IAM_create_role string pyval
  | IAM_delete_role pyval
  | Zipper string string pyval
  | Os_remove string
  | Open_read pyval

text \<open>
  The console printer \<^verbatim>\<open>Oprint\<close> is recorded in the same trace as the calls.
  \<^verbatim>\<open>Oprint.err\<close> receives either an exception object or a message.
\<close>

datatype event =
    Call call
  | Oprint_info string string
  | Oprint_err "exn + string" string

record 'w state =
  world :: 'w
  trace :: "event list"

text \<open>
  The parameters of a run: the project identity of \<^verbatim>\<open>AWSBase.get_name_id()\<close>, the
  constants imported from \<^verbatim>\<open>lmdo.config\<close>, and the behaviour of the collaborators
  as a transition function on an arbitrary world \<open>'w\<close>: a call either raises or
  returns a value, and moves the world on.
\<close>

record 'w env =
  name_id :: string
  TMP_DIR :: string
  LAMBDA_MEMORY_SIZE :: pyval
  LAMBDA_RUNTIME :: pyval
  LAMBDA_TIMEOUT :: pyval
  LAMBDA_EXCLUDE :: pyval
  external :: "call \<Rightarrow> 'w \<Rightarrow> (exn + pyval) \<times> 'w"
  builtin_str :: "pyval \<Rightarrow> string"

type_synonym ('w, 'a) M = "'w state \<Rightarrow> (exn + 'a) \<times> 'w state"

definition returnM :: "'a \<Rightarrow> ('w, 'a) M" where
  "returnM x s = (Inr x, s)"

definition raiseM :: "exn \<Rightarrow> ('w, 'a) M" where
  "raiseM e s = (Inl e, s)"

definition bindM :: "('w, 'a) M \<Rightarrow> ('a \<Rightarrow> ('w, 'b) M) \<Rightarrow> ('w, 'b) M" where
  "bindM m f s = (case m s of (Inl e, s') \<Rightarrow> (Inl e, s') | (Inr x, s') \<Rightarrow> f x s')"

definition liftE :: "exn + 'a \<Rightarrow> ('w, 'a) M" where
  "liftE r s = (r, s)"

text \<open>\<^verbatim>\<open>try: body  except C: handler\<close>, where \<open>caught\<close> decides membership in \<open>C\<close>.\<close>

definition try_except :: "('w, 'a) M \<Rightarrow> (exn \<Rightarrow> bool) \<Rightarrow> (exn \<Rightarrow> ('w, 'a) M) \<Rightarrow> ('w, 'a) M" where
  "try_except body caught handler s =
     (case body s of
        (Inl e, s') \<Rightarrow> if caught e then handler e s' else (Inl e, s')
      | (Inr x, s') \<Rightarrow> (Inr x, s'))"

text \<open>
  The shape shared by the remote-API wrappers:
  \<^verbatim>\<open>try: response = rhs; rest  except Exception as e: handler\<close>.
  The result is the binding of the local variable \<^verbatim>\<open>response\<close> after the statement:
  \<open>None\<close> when the assignment never happened, \<open>Some r\<close> once it did, also when a later
  statement of the body raised a caught exception.
\<close>

definition try_assign ::
  "('w, pyval) M \<Rightarrow> (pyval \<Rightarrow> ('w, unit) M) \<Rightarrow> (exn \<Rightarrow> bool) \<Rightarrow> (exn \<Rightarrow> ('w, unit) M)
     \<Rightarrow> ('w, pyval option) M" where
  "try_assign rhs rest caught handler s =
     (case rhs s of
        (Inl e, s1) \<Rightarrow>
          if caught e then bindM (handler e) (\<lambda>u. returnM None) s1 else (Inl e, s1)
      | (Inr r, s1) \<Rightarrow>
          (case rest r s1 of
             (Inl e, s2) \<Rightarrow>
               if caught e then bindM (handler e) (\<lambda>u. returnM (Some r)) s2 else (Inl e, s2)
           | (Inr u, s2) \<Rightarrow> (Inr (Some r), s2)))"

text \<open>Reading the local variable \<^verbatim>\<open>response\<close>.\<close>

definition read_local :: "string \<Rightarrow> pyval option \<Rightarrow> ('w, pyval) M" where
  "read_local name v = (case v of None \<Rightarrow> raiseM (UnboundLocalError name) | Some r \<Rightarrow> returnM r)"

definition ext_call :: "'w env \<Rightarrow> call \<Rightarrow> ('w, pyval) M" where
  "ext_call env c s =
     (case external env c (world s) of
        (r, w') \<Rightarrow> (r, s\<lparr>world := w', trace := trace s @ [Call c]\<rparr>))"

definition emit :: "event \<Rightarrow> ('w, unit) M" where
  "emit ev s = (Inr (), s\<lparr>trace := trace s @ [ev]\<rparr>)"

definition oprint_info_fmt :: "string \<Rightarrow> string list \<Rightarrow> string \<Rightarrow> ('w, unit) M" where
  "oprint_info_fmt template args src =
     bindM (liftE (py_format template args)) (\<lambda>msg. emit (Oprint_info msg src))"

definition oprint_err_fmt :: "string \<Rightarrow> string list \<Rightarrow> string \<Rightarrow> ('w, unit) M" where
  "oprint_err_fmt template args src =
     bindM (liftE (py_format template args)) (\<lambda>msg. emit (Oprint_err (Inr msg) src))"

definition oprint_err_exn :: "exn \<Rightarrow> string \<Rightarrow> ('w, unit) M" where
  "oprint_err_exn e src = emit (Oprint_err (Inl e) src)"

section \<open>Naming helpers\<close>

definition get_function_name :: "'w env \<Rightarrow> string \<Rightarrow> exn + string" where
  "get_function_name env func_name = py_format ''{}-{}'' [name_id env, func_name]"

definition get_role_name :: "'w env \<Rightarrow> string \<Rightarrow> exn + string" where
  "get_role_name env func_name = py_format ''lmdo-{}-{}'' [name_id env, func_name]"

definition get_zip_name :: "'w env \<Rightarrow> string \<Rightarrow> exn + string" where
  "get_zip_name env func_name = py_format ''{}-{}.zip'' [name_id env, func_name]"

definition get_statement_id :: "'w env \<Rightarrow> string \<Rightarrow> string \<Rightarrow> exn + string" where
  "get_statement_id env func_name principal_id =
     (case get_function_name env func_name of
        Inl e \<Rightarrow> Inl e
      | Inr fname \<Rightarrow> py_format ''stmt-{}-{}'' [fname, principal_id])"

section \<open>Remote-API wrappers\<close>

text \<open>
  Each wrapper evaluates its arguments and calls the SDK inside the \<^verbatim>\<open>try\<close> block,
  logs in the handler, and reads \<^verbatim>\<open>response\<close> after the \<^verbatim>\<open>try\<close> statement.
\<close>

definition add_permission ::
  "'w env \<Rightarrow> string \<Rightarrow> string \<Rightarrow> string \<Rightarrow> string \<Rightarrow> ('w, pyval) M" where
  "add_permission env func_name princ principal_id action =
     bindM (try_assign
              (bindM (liftE (get_function_name env func_name)) (\<lambda>fname.
               bindM (liftE (get_statement_id env func_name principal_id)) (\<lambda>sid.
               ext_call env (Lambda_add_permission fname sid action princ))))
              (\<lambda>r. bindM (liftE (get_function_name env func_name)) (\<lambda>fname.
                 oprint_info_fmt ''Permission {} has been added for {} with principal {}''
                   [action, fname, princ] ''lambda''))
              is_Exception
              (\<lambda>e. oprint_err_exn e ''lambda''))
       (\<lambda>v. bindM (read_local ''response'' v) (\<lambda>response.
        bindM (liftE (py_get response ''Statement'')) (\<lambda>st.
        bindM (if st = PNone
               then oprint_err_fmt ''Create lambda permission {} for {}'' [action, princ] ''lambda''
               else returnM ()) (\<lambda>u.
        read_local ''response'' v))))"

definition remove_permission :: "'w env \<Rightarrow> string \<Rightarrow> string \<Rightarrow> ('w, pyval) M" where
  "remove_permission env func_name principal_id =
     bindM (try_assign
              (bindM (liftE (get_statement_id env func_name principal_id)) (\<lambda>sid.
               ext_call env (Lambda_remove_permission func_name sid)))
              (\<lambda>r. bindM (liftE (get_function_name env func_name)) (\<lambda>fname.
                 oprint_info_fmt ''Permission has been removed for {}'' [fname] ''lambda''))
              is_Exception
              (\<lambda>e. oprint_err_exn e ''lambda''))
       (read_local ''response'')"

definition create_function ::
  "'w env \<Rightarrow> string \<Rightarrow> pyval \<Rightarrow> pyval \<Rightarrow> pyval \<Rightarrow> pyval \<Rightarrow> kwargs \<Rightarrow> ('w, pyval) M" where
  "create_function env func_name role handler code runtime kw =
     bindM (try_assign
              (bindM (liftE (get_function_name env func_name)) (\<lambda>fname.
               ext_call env (Lambda_create_function fname runtime role handler code kw)))
              (\<lambda>r. bindM (liftE (get_function_name env func_name)) (\<lambda>fname.
                 oprint_info_fmt ''Lambda function {} has been created'' [fname] ''lambda''))
              is_Exception
              (\<lambda>e. oprint_err_exn e ''lambda''))
       (read_local ''response'')"

definition delete_function :: "'w env \<Rightarrow> string \<Rightarrow> kwargs \<Rightarrow> ('w, pyval) M" where
  "delete_function env func_name kw =
     bindM (try_assign
              (bindM (liftE (get_function_name env func_name)) (\<lambda>fname.
               ext_call env (Lambda_delete_function fname kw)))
              (\<lambda>r. bindM (liftE (get_function_name env func_name)) (\<lambda>fname.
                 oprint_info_fmt ''Lambda function {} has been deleted'' [fname] ''lambda''))
              is_Exception
              (\<lambda>e. oprint_err_exn e ''lambda''))
       (read_local ''response'')"

definition invoke :: "'w env \<Rightarrow> string \<Rightarrow> kwargs \<Rightarrow> ('w, pyval) M" where
  "invoke env func_name kw =
     bindM (try_assign
              (bindM (liftE (get_function_name env func_name)) (\<lambda>fname.
               ext_call env (Lambda_invoke fname kw)))
              (\<lambda>r. returnM ())
              is_Exception
              (\<lambda>e. oprint_err_exn e ''lambda''))
       (read_local ''response'')"

definition list_functions :: "'w env \<Rightarrow> kwargs \<Rightarrow> ('w, pyval) M" where
  "list_functions env kw =
     bindM (try_assign
              (ext_call env (Lambda_list_functions kw))
              (\<lambda>r. returnM ())
              is_Exception
              (\<lambda>e. oprint_err_exn e ''lambda''))
       (read_local ''response'')"

definition update_function_code :: "'w env \<Rightarrow> string \<Rightarrow> pyval \<Rightarrow> ('w, pyval) M" where
  "update_function_code env func_name bucket_name =
     bindM (try_assign
              (bindM (liftE (get_function_name env func_name)) (\<lambda>fname.
               bindM (liftE (get_zip_name env func_name)) (\<lambda>zname.
               ext_call env (Lambda_update_function_code fname bucket_name zname))))
              (\<lambda>r. oprint_info_fmt ''Lambda function {} has been updated'' [func_name] ''lambda'')
              is_Exception
              (\<lambda>e. oprint_err_exn e ''lambda''))
       (read_local ''response'')"

definition get_function :: "'w env \<Rightarrow> string \<Rightarrow> kwargs \<Rightarrow> ('w, pyval) M" where
  "get_function env func_name kw =
     bindM (try_assign
              (ext_call env (Lambda_get_function func_name kw))
              (\<lambda>r. returnM ())
              is_Exception
              (\<lambda>e. oprint_err_exn e ''lambda''))
       (\<lambda>v. bindM (read_local ''response'' v) (\<lambda>response.
        bindM (liftE (py_get response ''Configuration'')) (\<lambda>c.
        if truthy c then read_local ''response'' v else returnM (PBool False))))"

section \<open>Packaging and roles\<close>

definition zip_function :: "'w env \<Rightarrow> string \<Rightarrow> ('w, pyval) M" where
  "zip_function env func_name =
     bindM (liftE (get_zip_name env func_name)) (\<lambda>zname.
     bindM (ext_call env (Zipper ''./'' (TMP_DIR env @ zname) (LAMBDA_EXCLUDE env))) (\<lambda>ok.
     if truthy ok then returnM (PStr (TMP_DIR env @ zname)) else returnM (PBool False)))"

definition remove_zip :: "'w env \<Rightarrow> string \<Rightarrow> ('w, unit) M" where
  "remove_zip env func_name =
     try_except
       (bindM (liftE (get_zip_name env func_name)) (\<lambda>zname.
        bindM (ext_call env (Os_remove (TMP_DIR env @ zname))) (\<lambda>r. returnM ())))
       is_OSError
       (\<lambda>e. returnM ())"

definition create_role :: "'w env \<Rightarrow> string \<Rightarrow> pyval \<Rightarrow> ('w, pyval) M" where
  "create_role env role_name policy_path =
     bindM (ext_call env (Open_read policy_path)) (\<lambda>policy.
     bindM (ext_call env (IAM_create_role role_name policy)) (\<lambda>role.
     bindM (liftE (py_get role ''Role'')) (\<lambda>r.
     liftE (py_get r ''RoleName''))))"

definition delete_role :: "'w env \<Rightarrow> pyval \<Rightarrow> ('w, unit) M" where
  "delete_role env role = bindM (ext_call env (IAM_delete_role role)) (\<lambda>r. returnM ())"

section \<open>Configuration\<close>

text \<open>
  One entry of the \<^verbatim>\<open>Lambda\<close> list of the configuration.  \<^verbatim>\<open>FunctionName\<close> is a
  string; the other keys hold whatever the configuration file gave, \<open>PNone\<close> when the
  key is absent (the module reads every key with \<^verbatim>\<open>lm.get\<close>).
\<close>

record lm_spec =
  FunctionName :: string
  S3Bucket :: pyval
  Handler :: pyval
  MemorySize :: pyval
  Runtime :: pyval
  Timeout :: pyval
  VpcConfig :: pyval
  EnvironmentVariables :: pyval
  Role :: pyval
  RolePolicyDocument :: pyval

text \<open>\<^verbatim>\<open>self._config\<close>: the \<^verbatim>\<open>Lambda\<close> key may be absent (\<open>None\<close>).\<close>

record config =
  Lambda :: "lm_spec list option"
  Service :: string

section \<open>Deploy and destroy\<close>

text \<open>
  Binding of a call \<^verbatim>\<open>f(**kw)\<close> to a signature with the required parameters
  \<open>names\<close> followed by \<^verbatim>\<open>**kwargs\<close>: every required parameter must be among the
  keywords, otherwise Python raises \<^verbatim>\<open>TypeError\<close> before the body of \<open>f\<close> runs;
  the remaining keywords go to \<^verbatim>\<open>kwargs\<close>.
\<close>

definition bind_kwargs :: "string list \<Rightarrow> kwargs \<Rightarrow> exn + (pyval list \<times> kwargs)" where
  "bind_kwargs names kw =
     (if filter (\<lambda>n. map_of kw n = None) names \<noteq> []
      then Inl (TypeError ''missing required positional arguments'')
      else Inr (map (\<lambda>n. case map_of kw n of None \<Rightarrow> PNone | Some v \<Rightarrow> v) names,
                filter (\<lambda>(k, v). k \<notin> set names) kw))"

text \<open>\<^verbatim>\<open>str(v)\<close>; on values other than strings it is Python's own rendering.\<close>

definition py_str :: "'w env \<Rightarrow> pyval \<Rightarrow> string" where
  "py_str env v = (case v of PStr s \<Rightarrow> s | _ \<Rightarrow> builtin_str env v)"

text \<open>The call \<^verbatim>\<open>self.create_function(**params)\<close> of \<^verbatim>\<open>process\<close>.\<close>

definition create_function_kwargs :: "'w env \<Rightarrow> kwargs \<Rightarrow> ('w, pyval) M" where
  "create_function_kwargs env params =
     bindM (liftE (bind_kwargs [''func_name'', ''role'', ''handler'', ''code'', ''runtime''] params))
       (\<lambda>(args, kw).
          create_function env (py_str env (args ! 0)) (args ! 1) (args ! 2) (args ! 3) (args ! 4) kw)"

text \<open>The dict \<^verbatim>\<open>params\<close> as \<^verbatim>\<open>process\<close> builds it for one entry.\<close>

definition build_params :: "'w env \<Rightarrow> config \<Rightarrow> lm_spec \<Rightarrow> exn + kwargs" where
  "build_params env cfg lm =
     (case get_function_name env (FunctionName lm) of
        Inl e \<Rightarrow> Inl e
      | Inr fname \<Rightarrow>
     (case py_format ''Function deployed for service {} by lmdo'' [Service cfg] of
        Inl e \<Rightarrow> Inl e
      | Inr descr \<Rightarrow>
          (let params0 =
                 [(''FunctionName'', PStr fname),
                  (''S3Bucket'', S3Bucket lm),
                  (''Handler'', Handler lm),
                  (''MemorySize'', py_or (MemorySize lm) (LAMBDA_MEMORY_SIZE env)),
                  (''Runtime'', py_or (Runtime lm) (LAMBDA_RUNTIME env)),
                  (''Timeout'', py_or (Timeout lm) (LAMBDA_TIMEOUT env)),
                  (''Description'', PStr descr)];
               params1 = (if truthy (VpcConfig lm)
                          then dict_set params0 ''VpcConfig'' (VpcConfig lm) else params0);
               params2 = (if truthy (EnvironmentVariables lm)
                          then dict_set params1 ''Environment''
                                 (PDict [(''Variables'', EnvironmentVariables lm)])
                          else params1)
           in Inr params2)))"

text \<open>
  The body of the \<^verbatim>\<open>for lm in ...\<close> loop of \<^verbatim>\<open>process\<close>.  The upload receives
  \<^verbatim>\<open>self.get_zip_name\<close>, the bound method, as its key argument.
\<close>

definition process_lm :: "'w env \<Rightarrow> config \<Rightarrow> lm_spec \<Rightarrow> ('w, unit) M" where
  "process_lm env cfg lm =
     bindM (liftE (build_params env cfg lm)) (\<lambda>params.
     bindM (remove_zip env (FunctionName lm)) (\<lambda>u.
     bindM (zip_function env (FunctionName lm)) (\<lambda>file_path.
     bindM (if truthy file_path
            then ext_call env (S3_upload_file (S3Bucket lm) (PBoundMethod ''get_zip_name'') file_path)
            else returnM file_path) (\<lambda>cond.
     bindM (if truthy cond then
              bindM (get_function env (FunctionName lm) []) (\<lambda>found.
              if truthy found then
                bindM (update_function_code env (FunctionName lm) (S3Bucket lm)) (\<lambda>r. returnM ())
              else
                bindM (if truthy (Role lm) then returnM (Role lm)
                       else bindM (liftE (get_role_name env (FunctionName lm))) (\<lambda>rname.
                            create_role env rname (RolePolicyDocument lm))) (\<lambda>role.
                bindM (create_function_kwargs env (dict_set params ''Role'' role)) (\<lambda>r.
                returnM ())))
            else returnM ()) (\<lambda>u.
     remove_zip env (FunctionName lm))))))"

fun process_loop :: "'w env \<Rightarrow> config \<Rightarrow> lm_spec list \<Rightarrow> ('w, unit) M" where
  "process_loop env cfg [] = returnM ()"
| "process_loop env cfg (lm # lms) =
     bindM (process_lm env cfg lm) (\<lambda>u. process_loop env cfg lms)"

text \<open>
  The body of \<^verbatim>\<open>process\<close> under a repaired guard.  Line 201 of the source reads
  \<^verbatim>\<open>if !self._config.get('Lambda')\<close>, which is not Python; this definition reads it
  as \<^verbatim>\<open>if not self._config.get('Lambda')\<close>, true for an absent key and for an empty
  list, the reading the design notes of the specification infer.  The early return gives
  \<^verbatim>\<open>True\<close>, falling off the end of the loop gives \<^verbatim>\<open>None\<close>.  What the module
  does as it is shipped is \<open>process_as_shipped\<close> below.
\<close>

definition process :: "'w env \<Rightarrow> config \<Rightarrow> ('w, pyval) M" where
  "process env cfg =
     (case Lambda cfg of
        None \<Rightarrow>
          bindM (emit (Oprint_info ''No Lambda function configured, skip...'' ''lambda''))
            (\<lambda>u. returnM (PBool True))
      | Some lms \<Rightarrow>
          if lms = [] then
            bindM (emit (Oprint_info ''No Lambda function configured, skip...'' ''lambda''))
              (\<lambda>u. returnM (PBool True))
          else bindM (process_loop env cfg lms) (\<lambda>u. returnM PNone))"

text \<open>
  The body of the loop of \<^verbatim>\<open>delete\<close> under a repaired guard.  Line 53 of the
  source reads \<^verbatim>\<open>if !lm.get('Role')\<close>, which is not Python; this definition reads it
  as \<^verbatim>\<open>if not lm.get('Role')\<close>.
\<close>

definition delete_lm :: "'w env \<Rightarrow> lm_spec \<Rightarrow> ('w, unit) M" where
  "delete_lm env lm =
     bindM (get_function env (FunctionName lm) []) (\<lambda>info.
     bindM (delete_function env (FunctionName lm) []) (\<lambda>r.
     if \<not> truthy (Role lm) then
       bindM (liftE (py_get info ''Configuration'')) (\<lambda>c.
       bindM (liftE (py_get c ''Role'')) (\<lambda>role.
       delete_role env role))
     else returnM ()))"

fun delete_loop :: "'w env \<Rightarrow> lm_spec list \<Rightarrow> ('w, unit) M" where
  "delete_loop env [] = returnM ()"
| "delete_loop env (lm # lms) = bindM (delete_lm env lm) (\<lambda>u. delete_loop env lms)"

text \<open>
  The body of \<^verbatim>\<open>delete\<close> under a repaired guard: line 42 of the source reads
  \<^verbatim>\<open>if !self._config.get('Lambda')\<close> and is read as \<^verbatim>\<open>not\<close> here.  What the
  module does as it is shipped is \<open>delete_as_shipped\<close> below.
\<close>

definition delete :: "'w env \<Rightarrow> config \<Rightarrow> ('w, pyval) M" where
  "delete env cfg =
     (case Lambda cfg of
        None \<Rightarrow>
          bindM (emit (Oprint_info ''No Lambda function configured, skip'' ''lambda''))
            (\<lambda>u. returnM (PBool True))
      | Some lms \<Rightarrow>
          if lms = [] then
            bindM (emit (Oprint_info ''No Lambda function configured, skip'' ''lambda''))
              (\<lambda>u. returnM (PBool True))
          else bindM (delete_loop env lms) (\<lambda>u. returnM PNone))"

section \<open>The module as shipped\<close>

text \<open>
  Python compiles a whole module before it runs any statement of it.  The prefix
  operators of its expression grammar are \<^verbatim>\<open>not\<close>, \<^verbatim>\<open>-\<close>, \<^verbatim>\<open>+\<close> and
  \<^verbatim>\<open>~\<close>.  The module writes the conditions of three \<^verbatim>\<open>if\<close> statements with the
  prefix \<^verbatim>\<open>!\<close>: line 42 (the guard of \<^verbatim>\<open>delete\<close>), line 53 (its role test) and
  line 201 (the guard of \<^verbatim>\<open>process\<close>).
\<close>

definition python_prefix_operators :: "string list" where
  "python_prefix_operators = [''not'', ''-'', ''+'', ''~'']"

text \<open>The prefix operator of each of the three conditions, with its source line.\<close>

definition guards :: "(nat \<times> string) list" where
  "guards = [(42, ''!''), (53, ''!''), (201, ''!'')]"

fun compile_guards :: "(nat \<times> string) list \<Rightarrow> exn + unit" where
  "compile_guards [] = Inr ()"
| "compile_guards ((line, oper) # gs) =
     (if List.member python_prefix_operators oper then compile_guards gs
      else Inl (SyntaxError ''invalid syntax''))"

definition import_module :: "exn + unit" where
  "import_module = compile_guards guards"

text \<open>
  A call of \<^verbatim>\<open>process\<close> or \<^verbatim>\<open>delete\<close> of the shipped module: the module has to
  be imported before any of its methods can run.
\<close>

definition process_as_shipped :: "'w env \<Rightarrow> config \<Rightarrow> ('w, pyval) M" where
  "process_as_shipped env cfg = bindM (liftE import_module) (\<lambda>u. process env cfg)"

definition delete_as_shipped :: "'w env \<Rightarrow> config \<Rightarrow> ('w, pyval) M" where
  "delete_as_shipped env cfg = bindM (liftE import_module) (\<lambda>u. delete env cfg)"

section \<open>Reading a trace\<close>

fun calls_of :: "event list \<Rightarrow> call list" where
  "calls_of [] = []"
| "calls_of (Call c # evs) = c # calls_of evs"
| "calls_of (ev # evs) = calls_of evs"

fun is_create_function :: "call \<Rightarrow> bool" where
  "is_create_function (Lambda_create_function n rt r h c kw) = True"
| "is_create_function c = False"

fun is_update_function_code :: "call \<Rightarrow> bool" where
  "is_update_function_code (Lambda_update_function_code n b k) = True"
| "is_update_function_code c = False"

fun is_upload :: "call \<Rightarrow> bool" where
  "is_upload (S3_upload_file b k p) = True"
| "is_upload c = False"

fun is_create_role :: "call \<Rightarrow> bool" where
  "is_create_role (IAM_create_role n p) = True"
| "is_create_role c = False"

fun is_delete_role :: "call \<Rightarrow> bool" where
  "is_delete_role (IAM_delete_role r) = True"
| "is_delete_role c = False"

text \<open>The events a computation appends to the trace it starts from.\<close>

definition new_events :: "'w state \<Rightarrow> 'w state \<Rightarrow> event list" where
  "new_events s s' = drop (length (trace s)) (trace s')"

text \<open>Outcomes of a collaborator call.\<close>

definition returns_truthy :: "exn + pyval \<Rightarrow> bool" where
  "returns_truthy r = (case r of Inl e \<Rightarrow> False | Inr v \<Rightarrow> truthy v)"

definition returns_falsy :: "exn + pyval \<Rightarrow> bool" where
  "returns_falsy r = (case r of Inl e \<Rightarrow> False | Inr v \<Rightarrow> \<not> truthy v)"

definition returns_value :: "exn + pyval \<Rightarrow> bool" where
  "returns_value r = (case r of Inl e \<Rightarrow> False | Inr v \<Rightarrow> True)"

definition returns_or_OSError :: "exn + pyval \<Rightarrow> bool" where
  "returns_or_OSError r = (case r of Inl e \<Rightarrow> is_OSError e | Inr v \<Rightarrow> True)"

text \<open>
  Answers of the SDK's \<^verbatim>\<open>get_function\<close> as the existence probe reads them: a
  response whose \<^verbatim>\<open>Configuration\<close> is truthy, or a response without one.
\<close>

definition probe_finds :: "exn + pyval \<Rightarrow> bool" where
  "probe_finds r =
     (case r of
        Inl e \<Rightarrow> False
      | Inr v \<Rightarrow> (case py_get v ''Configuration'' of Inl e \<Rightarrow> False | Inr c \<Rightarrow> truthy c))"

definition probe_misses :: "exn + pyval \<Rightarrow> bool" where
  "probe_misses r =
     (case r of
        Inl e \<Rightarrow> False
      | Inr v \<Rightarrow> (case py_get v ''Configuration'' of Inl e \<Rightarrow> False | Inr c \<Rightarrow> \<not> truthy c))"

section \<open>A sample project and sample collaborators\<close>

text \<open>
  A small remote world for concrete runs: the world is the list of the names of the
  functions that exist remotely.  Looking up a missing function answers with a response
  that has no \<^verbatim>\<open>Configuration\<close>; creating an existing one and updating or deleting a
  missing one raise; packaging, upload, reading the policy document and role management
  succeed; \<^verbatim>\<open>os.remove\<close> finds no file.
\<close>

fun sample_aws :: "call \<Rightarrow> string list \<Rightarrow> (exn + pyval) \<times> string list" where
  "sample_aws (Lambda_get_function n kw) fs =
     (if List.member fs n
      then Inr (PDict [(''Configuration'',
                  PDict [(''FunctionName'', PStr n), (''Role'', PStr ''arn:aws:iam::1:role/r'')])])
      else Inr (PDict []), fs)"
| "sample_aws (Lambda_create_function n rt r h c kw) fs =
     (if List.member fs n then (Inl (ClientError ''ResourceConflictException''), fs)
      else (Inr (PDict [(''FunctionName'', PStr n)]), n # fs))"
| "sample_aws (Lambda_update_function_code n b k) fs =
     (if List.member fs n then (Inr (PDict [(''FunctionName'', PStr n)]), fs)
      else (Inl (ClientError ''ResourceNotFoundException''), fs))"
| "sample_aws (Lambda_delete_function n kw) fs =
     (if List.member fs n then (Inr (PDict []), removeAll n fs)
      else (Inl (ClientError ''ResourceNotFoundException''), fs))"
| "sample_aws (S3_upload_file b k p) fs = (Inr (PBool True), fs)"
| "sample_aws (IAM_create_role n p) fs =
     (Inr (PDict [(''Role'', PDict [(''RoleName'', PStr n)])]), fs)"
| "sample_aws (Zipper src target ex) fs = (Inr (PBool True), fs)"
| "sample_aws (Os_remove t) fs = (Inl (OSError ''No such file or directory''), fs)"
| "sample_aws (Open_read p) fs = (Inr (PStr ''{}''), fs)"
| "sample_aws c fs = (Inr PNone, fs)"

text \<open>The same world with a source tree that cannot be packaged.\<close>

fun unzippable_aws :: "call \<Rightarrow> string list \<Rightarrow> (exn + pyval) \<times> string list" where
  "unzippable_aws (Zipper src target ex) fs = (Inr (PBool False), fs)"
| "unzippable_aws c fs = sample_aws c fs"

text \<open>The same world, except that the existence probe never finds a function.\<close>

fun barren_aws :: "call \<Rightarrow> string list \<Rightarrow> (exn + pyval) \<times> string list" where
  "barren_aws (Lambda_get_function n kw) fs = (Inr (PDict []), fs)"
| "barren_aws c fs = sample_aws c fs"

text \<open>The same world, where the role a function runs under is named after the function.\<close>

fun named_roles_aws :: "call \<Rightarrow> string list \<Rightarrow> (exn + pyval) \<times> string list" where
  "named_roles_aws (Lambda_get_function n kw) fs =
     (if List.member fs n
      then Inr (PDict [(''Configuration'',
                  PDict [(''FunctionName'', PStr n), (''Role'', PStr (''role-of-'' @ n))])])
      else Inr (PDict []), fs)"
| "named_roles_aws c fs = sample_aws c fs"

text \<open>A remote side on which every call raises.\<close>

definition failing_aws :: "call \<Rightarrow> string list \<Rightarrow> (exn + pyval) \<times> string list" where
  "failing_aws c fs = (Inl (ClientError ''ServiceException''), fs)"

definition demo_env :: "string list env" where
  "demo_env = \<lparr>name_id = ''demo'', TMP_DIR = ''/tmp/lmdo/'', LAMBDA_MEMORY_SIZE = PInt 128,
     LAMBDA_RUNTIME = PStr ''python2.7'', LAMBDA_TIMEOUT = PInt 180, LAMBDA_EXCLUDE = PNone,
     external = sample_aws, builtin_str = (\<lambda>v. ''object'')\<rparr>"

definition failing_env :: "string list env" where
  "failing_env = demo_env\<lparr>external := failing_aws\<rparr>"

definition unzippable_env :: "string list env" where
  "unzippable_env = demo_env\<lparr>external := unzippable_aws\<rparr>"

definition barren_env :: "string list env" where
  "barren_env = demo_env\<lparr>external := barren_aws\<rparr>"

definition named_roles_env :: "string list env" where
  "named_roles_env = demo_env\<lparr>external := named_roles_aws\<rparr>"

definition hello :: lm_spec where
  "hello = \<lparr>FunctionName = ''hello'', S3Bucket = PStr ''bucket'', Handler = PStr ''handler.main'',
     MemorySize = PNone, Runtime = PNone, Timeout = PNone, VpcConfig = PNone,
     EnvironmentVariables = PNone, Role = PNone, RolePolicyDocument = PStr ''policy.json''\<rparr>"

definition hello_with_role :: lm_spec where
  "hello_with_role = hello\<lparr>Role := PStr ''arn:aws:iam::1:role/given''\<rparr>"

definition demo_config :: config where
  "demo_config = \<lparr>Lambda = Some [hello], Service = ''svc''\<rparr>"

definition start :: "string list \<Rightarrow> string list state" where
  "start fs = \<lparr>world = fs, trace = []\<rparr>"

section \<open>Basic facts\<close>

lemma get_function_name_eq: "get_function_name env f = Inr (name_id env @ ''-'' @ f)"
  by (simp add: get_function_name_def)

lemma get_role_name_eq: "get_role_name env f = Inr (''lmdo-'' @ name_id env @ ''-'' @ f)"
  by (simp add: get_role_name_def)

lemma get_zip_name_eq: "get_zip_name env f = Inr (name_id env @ ''-'' @ f @ ''.zip'')"
  by (simp add: get_zip_name_def)

lemma get_statement_id_eq:
  "get_statement_id env f pid = Inr (''stmt-'' @ name_id env @ ''-'' @ f @ ''-'' @ pid)"
  by (simp add: get_statement_id_def get_function_name_eq)

lemmas name_eqs = get_function_name_eq get_role_name_eq get_zip_name_eq get_statement_id_eq

lemmas monad_defs = returnM_def raiseM_def bindM_def liftE_def try_except_def try_assign_def
  read_local_def emit_def oprint_info_fmt_def oprint_err_fmt_def oprint_err_exn_def

lemma ext_call_eq:
  "ext_call env c s =
     (fst (external env c (world s)),
      s\<lparr>world := snd (external env c (world s)), trace := trace s @ [Call c]\<rparr>)"
  by (simp add: ext_call_def split: prod.split)

lemma bindM_Inr_elim:
  assumes "bindM m k s = (Inr y, s')"
  obtains x s1 where "m s = (Inr x, s1)" and "k x s1 = (Inr y, s')"
  using assms by (auto simp: bindM_def split: prod.splits sum.splits)

lemma bindM_alt:
  "bindM m k s = (case fst (m s) of Inl e \<Rightarrow> (Inl e, snd (m s)) | Inr x \<Rightarrow> k x (snd (m s)))"
  by (simp add: bindM_def split: prod.splits sum.splits)

lemma new_events_append [simp]:
  "trace s' = trace s @ evs \<Longrightarrow> new_events s s' = evs"
  by (simp add: new_events_def)

section \<open>Naming convention\<close>

text \<open>
  C4.  For every project id and function name the naming helpers return the documented
  templates: the deployed function name is \<open>p-f\<close>, the generated role name
  \<open>lmdo-p-f\<close>, the package key \<open>p-f.zip\<close> and the permission statement id
  \<open>stmt-p-f-principalId\<close>; for project id \<open>demo\<close> and function name \<open>hello\<close> they
  give \<open>demo-hello\<close>, \<open>lmdo-demo-hello\<close> and \<open>demo-hello.zip\<close>.
\<close>

theorem naming_templates:
  "get_function_name env f = Inr (name_id env @ ''-'' @ f)
   \<and> get_role_name env f = Inr (''lmdo-'' @ name_id env @ ''-'' @ f)
   \<and> get_zip_name env f = Inr (name_id env @ ''-'' @ f @ ''.zip'')
   \<and> get_statement_id env f pid = Inr (''stmt-'' @ name_id env @ ''-'' @ f @ ''-'' @ pid)
   \<and> get_function_name demo_env ''hello'' = Inr ''demo-hello''
   \<and> get_role_name demo_env ''hello'' = Inr ''lmdo-demo-hello''
   \<and> get_zip_name demo_env ''hello'' = Inr ''demo-hello.zip''
   \<and> get_statement_id demo_env ''hello'' ''sns'' = Inr ''stmt-demo-hello-sns''"
  by (simp add: name_eqs demo_env_def)

section \<open>Empty configuration\<close>

text \<open>
  Under the repaired guards an absent or empty \<open>Lambda\<close> list makes \<open>process\<close> and
  \<open>delete\<close> return \<open>True\<close> after printing a notice, with no call to any collaborator
  and the world left as it is.
\<close>

lemma empty_config_is_noop:
  "fst (process env (cfg\<lparr>Lambda := None\<rparr>) s) = Inr (PBool True)
   \<and> calls_of (new_events s (snd (process env (cfg\<lparr>Lambda := None\<rparr>) s))) = []
   \<and> world (snd (process env (cfg\<lparr>Lambda := None\<rparr>) s)) = world s
   \<and> fst (process env (cfg\<lparr>Lambda := Some []\<rparr>) s) = Inr (PBool True)
   \<and> calls_of (new_events s (snd (process env (cfg\<lparr>Lambda := Some []\<rparr>) s))) = []
   \<and> world (snd (process env (cfg\<lparr>Lambda := Some []\<rparr>) s)) = world s
   \<and> fst (delete env (cfg\<lparr>Lambda := None\<rparr>) s) = Inr (PBool True)
   \<and> calls_of (new_events s (snd (delete env (cfg\<lparr>Lambda := None\<rparr>) s))) = []
   \<and> world (snd (delete env (cfg\<lparr>Lambda := None\<rparr>) s)) = world s
   \<and> fst (delete env (cfg\<lparr>Lambda := Some []\<rparr>) s) = Inr (PBool True)
   \<and> calls_of (new_events s (snd (delete env (cfg\<lparr>Lambda := Some []\<rparr>) s))) = []
   \<and> world (snd (delete env (cfg\<lparr>Lambda := Some []\<rparr>) s)) = world s"
  by (simp add: process_def delete_def bindM_def emit_def returnM_def new_events_def)

lemma import_module_raises: "import_module = Inl (SyntaxError ''invalid syntax'')"
  by (simp add: import_module_def guards_def python_prefix_operators_def)

lemma as_shipped_raises:
  "process_as_shipped env cfg s = (Inl (SyntaxError ''invalid syntax''), s)"
  "delete_as_shipped env cfg s = (Inl (SyntaxError ''invalid syntax''), s)"
  by (simp_all add: process_as_shipped_def delete_as_shipped_def import_module_raises
      bindM_def liftE_def)

text \<open>
  C7.  The claim is that with an absent or empty \<open>Lambda\<close> list \<open>process\<close> and
  \<open>delete\<close> make no remote call and return success.  The guard that is to give the
  early \<open>return True\<close> is written \<open>if !self._config.get('Lambda')\<close> (lines 201 and
  42); \<open>!\<close> is no prefix operator of Python, so the module does not compile and, for
  an absent as for an empty list, neither method returns: the call ends in
  \<open>SyntaxError\<close>.
\<close>

theorem empty_config_raises_as_shipped:
  "import_module = Inl (SyntaxError ''invalid syntax'')
   \<and> fst (process_as_shipped demo_env (demo_config\<lparr>Lambda := None\<rparr>) (start [])) =
       Inl (SyntaxError ''invalid syntax'')
   \<and> fst (process_as_shipped demo_env (demo_config\<lparr>Lambda := Some []\<rparr>) (start [])) =
       Inl (SyntaxError ''invalid syntax'')
   \<and> fst (delete_as_shipped demo_env (demo_config\<lparr>Lambda := None\<rparr>) (start [])) =
       Inl (SyntaxError ''invalid syntax'')
   \<and> fst (delete_as_shipped demo_env (demo_config\<lparr>Lambda := Some []\<rparr>) (start [])) =
       Inl (SyntaxError ''invalid syntax'')"
  by code_simp

section \<open>The wrappers when the SDK call raises\<close>

lemma add_permission_raises:
  assumes "fst (external env (Lambda_add_permission (name_id env @ ''-'' @ f)
             (''stmt-'' @ name_id env @ ''-'' @ f @ ''-'' @ pid) a pr) (world s)) = Inl e"
    and "is_Exception e"
  shows "fst (add_permission env f pr pid a s) = Inl (UnboundLocalError ''response'')"
    and "new_events s (snd (add_permission env f pr pid a s)) =
           [Call (Lambda_add_permission (name_id env @ ''-'' @ f)
              (''stmt-'' @ name_id env @ ''-'' @ f @ ''-'' @ pid) a pr),
            Oprint_err (Inl e) ''lambda'']"
  using assms
  by (simp_all add: add_permission_def monad_defs name_eqs ext_call_eq new_events_def)

lemma remove_permission_raises:
  assumes "fst (external env (Lambda_remove_permission f
             (''stmt-'' @ name_id env @ ''-'' @ f @ ''-'' @ pid)) (world s)) = Inl e"
    and "is_Exception e"
  shows "fst (remove_permission env f pid s) = Inl (UnboundLocalError ''response'')"
    and "new_events s (snd (remove_permission env f pid s)) =
           [Call (Lambda_remove_permission f (''stmt-'' @ name_id env @ ''-'' @ f @ ''-'' @ pid)),
            Oprint_err (Inl e) ''lambda'']"
  using assms
  by (simp_all add: remove_permission_def monad_defs name_eqs ext_call_eq new_events_def)

lemma create_function_raises:
  assumes "fst (external env (Lambda_create_function (name_id env @ ''-'' @ f) rt r h c kw)
             (world s)) = Inl e"
    and "is_Exception e"
  shows "fst (create_function env f r h c rt kw s) = Inl (UnboundLocalError ''response'')"
    and "new_events s (snd (create_function env f r h c rt kw s)) =
           [Call (Lambda_create_function (name_id env @ ''-'' @ f) rt r h c kw),
            Oprint_err (Inl e) ''lambda'']"
  using assms
  by (simp_all add: create_function_def monad_defs name_eqs ext_call_eq new_events_def)

lemma delete_function_raises:
  assumes "fst (external env (Lambda_delete_function (name_id env @ ''-'' @ f) kw) (world s)) = Inl e"
    and "is_Exception e"
  shows "fst (delete_function env f kw s) = Inl (UnboundLocalError ''response'')"
    and "new_events s (snd (delete_function env f kw s)) =
           [Call (Lambda_delete_function (name_id env @ ''-'' @ f) kw), Oprint_err (Inl e) ''lambda'']"
  using assms
  by (simp_all add: delete_function_def monad_defs name_eqs ext_call_eq new_events_def)

lemma invoke_raises:
  assumes "fst (external env (Lambda_invoke (name_id env @ ''-'' @ f) kw) (world s)) = Inl e"
    and "is_Exception e"
  shows "fst (invoke env f kw s) = Inl (UnboundLocalError ''response'')"
    and "new_events s (snd (invoke env f kw s)) =
           [Call (Lambda_invoke (name_id env @ ''-'' @ f) kw), Oprint_err (Inl e) ''lambda'']"
  using assms
  by (simp_all add: invoke_def monad_defs name_eqs ext_call_eq new_events_def)

lemma list_functions_raises:
  assumes "fst (external env (Lambda_list_functions kw) (world s)) = Inl e"
    and "is_Exception e"
  shows "fst (list_functions env kw s) = Inl (UnboundLocalError ''response'')"
    and "new_events s (snd (list_functions env kw s)) =
           [Call (Lambda_list_functions kw), Oprint_err (Inl e) ''lambda'']"
  using assms
  by (simp_all add: list_functions_def monad_defs name_eqs ext_call_eq new_events_def)

lemma update_function_code_raises:
  assumes "fst (external env (Lambda_update_function_code (name_id env @ ''-'' @ f) b
             (name_id env @ ''-'' @ f @ ''.zip'')) (world s)) = Inl e"
    and "is_Exception e"
  shows "fst (update_function_code env f b s) = Inl (UnboundLocalError ''response'')"
    and "new_events s (snd (update_function_code env f b s)) =
           [Call (Lambda_update_function_code (name_id env @ ''-'' @ f) b
              (name_id env @ ''-'' @ f @ ''.zip'')), Oprint_err (Inl e) ''lambda'']"
  using assms
  by (simp_all add: update_function_code_def monad_defs name_eqs ext_call_eq new_events_def)

lemma get_function_raises:
  assumes "fst (external env (Lambda_get_function f kw) (world s)) = Inl e"
    and "is_Exception e"
  shows "fst (get_function env f kw s) = Inl (UnboundLocalError ''response'')"
    and "new_events s (snd (get_function env f kw s)) =
           [Call (Lambda_get_function f kw), Oprint_err (Inl e) ''lambda'']"
  using assms
  by (simp_all add: get_function_def monad_defs name_eqs ext_call_eq new_events_def)

section \<open>The keyword call of create_function\<close>

lemma build_params_Inr: "\<exists>params. build_params env cfg lm = Inr params"
  by (simp add: build_params_def name_eqs Let_def)

lemma build_params_no_func_name:
  assumes "build_params env cfg lm = Inr params"
  shows "map_of (dict_set params ''Role'' role) ''func_name'' = None"
  using assms by (auto simp: build_params_def name_eqs Let_def split: if_splits)

lemma create_function_kwargs_never_binds:
  assumes "build_params env cfg lm = Inr params"
  shows "create_function_kwargs env (dict_set params ''Role'' role) s =
           (Inl (TypeError ''missing required positional arguments''), s)"
  using build_params_no_func_name[OF assms, of role]
  by (simp add: create_function_kwargs_def bind_kwargs_def bindM_def liftE_def)

section \<open>Which function name reaches the SDK\<close>

lemma prefixed_name_differs: "f \<noteq> name_id env @ ''-'' @ f"
proof
  assume "f = name_id env @ ''-'' @ f"
  then have "length f = length (name_id env @ ''-'' @ f)" by simp
  then show False by simp
qed

lemma get_function_call:
  "calls_of (new_events s (snd (get_function env f kw s))) = [Lambda_get_function f kw]"
  by (auto simp: get_function_def monad_defs ext_call_eq new_events_def split: sum.splits)

lemma remove_permission_call:
  "calls_of (new_events s (snd (remove_permission env f pid s))) =
     [Lambda_remove_permission f (''stmt-'' @ name_id env @ ''-'' @ f @ ''-'' @ pid)]"
  by (auto simp: remove_permission_def monad_defs name_eqs ext_call_eq new_events_def
      split: sum.splits)

lemma delete_function_call:
  "calls_of (new_events s (snd (delete_function env f kw s))) =
     [Lambda_delete_function (name_id env @ ''-'' @ f) kw]"
  by (auto simp: delete_function_def monad_defs name_eqs ext_call_eq new_events_def
      split: sum.splits)

lemma update_function_code_call:
  "calls_of (new_events s (snd (update_function_code env f b s))) =
     [Lambda_update_function_code (name_id env @ ''-'' @ f) b (name_id env @ ''-'' @ f @ ''.zip'')]"
  by (auto simp: update_function_code_def monad_defs name_eqs ext_call_eq new_events_def
      split: sum.splits)

lemma create_function_call:
  "calls_of (new_events s (snd (create_function env f r h c rt kw s))) =
     [Lambda_create_function (name_id env @ ''-'' @ f) rt r h c kw]"
  by (auto simp: create_function_def monad_defs name_eqs ext_call_eq new_events_def
      split: sum.splits)

lemma invoke_call:
  "calls_of (new_events s (snd (invoke env f kw s))) =
     [Lambda_invoke (name_id env @ ''-'' @ f) kw]"
  by (auto simp: invoke_def monad_defs name_eqs ext_call_eq new_events_def
      split: sum.splits)

text \<open>
  C8.  The claim is that every wrapper passes the prefixed function name to the SDK, and
  that \<open>get_function\<close> and \<open>remove_permission\<close> pass the same name as
  \<open>create_function\<close>, \<open>delete_function\<close>, \<open>invoke\<close> and \<open>update_function_code\<close>.
  For project \<open>demo\<close> and function \<open>hello\<close> the last four call the SDK with
  \<open>demo-hello\<close>, while \<open>get_function\<close> and \<open>remove_permission\<close> call it with the
  bare \<open>hello\<close>.
\<close>

theorem get_function_and_remove_permission_skip_prefix:
  "calls_of (trace (snd (get_function demo_env ''hello'' [] (start [])))) =
     [Lambda_get_function ''hello'' []]
   \<and> calls_of (trace (snd (remove_permission demo_env ''hello'' ''sns'' (start [])))) =
     [Lambda_remove_permission ''hello'' ''stmt-demo-hello-sns'']
   \<and> calls_of (trace (snd (create_function demo_env ''hello'' (PStr ''role'') (PStr ''h.main'')
        (PDict []) (PStr ''python2.7'') [] (start [])))) =
     [Lambda_create_function ''demo-hello'' (PStr ''python2.7'') (PStr ''role'') (PStr ''h.main'')
        (PDict []) []]
   \<and> calls_of (trace (snd (delete_function demo_env ''hello'' [] (start [])))) =
     [Lambda_delete_function ''demo-hello'' []]
   \<and> calls_of (trace (snd (invoke demo_env ''hello'' [] (start [])))) =
     [Lambda_invoke ''demo-hello'' []]
   \<and> calls_of (trace (snd (update_function_code demo_env ''hello'' (PStr ''bucket'') (start [])))) =
     [Lambda_update_function_code ''demo-hello'' (PStr ''bucket'') ''demo-hello.zip'']"
  by code_simp

section \<open>The wrappers after a failed SDK call, on the sample project\<close>

text \<open>
  C2.  The claim is that a wrapper whose SDK call raises logs the exception, continues,
  and returns \<open>response\<close> to its caller.  On a remote side where every call raises,
  each of the eight wrappers logs the exception and then raises \<open>UnboundLocalError\<close>
  to its caller, because \<open>response\<close> was never assigned.
\<close>

theorem wrappers_raise_after_sdk_failure:
  "fst (add_permission failing_env ''hello'' ''sns.amazonaws.com'' ''sns'' ''lambda:InvokeFunction''
          (start [])) = Inl (UnboundLocalError ''response'')
   \<and> fst (remove_permission failing_env ''hello'' ''sns'' (start [])) =
         Inl (UnboundLocalError ''response'')
   \<and> fst (create_function failing_env ''hello'' (PStr ''role'') (PStr ''h.main'') (PDict [])
          (PStr ''python2.7'') [] (start [])) = Inl (UnboundLocalError ''response'')
   \<and> fst (delete_function failing_env ''hello'' [] (start [])) = Inl (UnboundLocalError ''response'')
   \<and> fst (invoke failing_env ''hello'' [] (start [])) = Inl (UnboundLocalError ''response'')
   \<and> fst (list_functions failing_env [] (start [])) = Inl (UnboundLocalError ''response'')
   \<and> fst (update_function_code failing_env ''hello'' (PStr ''bucket'') (start [])) =
         Inl (UnboundLocalError ''response'')
   \<and> fst (get_function failing_env ''hello'' [] (start [])) = Inl (UnboundLocalError ''response'')
   \<and> trace (snd (create_function failing_env ''hello'' (PStr ''role'') (PStr ''h.main'') (PDict [])
          (PStr ''python2.7'') [] (start []))) =
         [Call (Lambda_create_function ''demo-hello'' (PStr ''python2.7'') (PStr ''role'')
            (PStr ''h.main'') (PDict []) []),
          Oprint_err (Inl (ClientError ''ServiceException'')) ''lambda'']"
  by code_simp

section \<open>Deploy on the sample project\<close>

text \<open>
  C1.  The claim is that deploy updates the code of a function that exists and, for a
  function that does not exist, resolves the role and then calls create-function.  On the
  sample project with no remote function, \<open>process\<close> resolves the role and then stops
  with \<open>TypeError\<close> at \<open>self.create_function(**params)\<close>: the keys of \<open>params\<close> are
  not the parameter names of \<open>create_function\<close>, so the SDK's create-function is never
  called, with or without an explicit role.
\<close>

theorem deploy_never_reaches_create_function:
  "fst (process demo_env demo_config (start [])) =
     Inl (TypeError ''missing required positional arguments'')
   \<and> calls_of (trace (snd (process demo_env demo_config (start [])))) =
     [Os_remove ''/tmp/lmdo/demo-hello.zip'',
      Zipper ''./'' ''/tmp/lmdo/demo-hello.zip'' PNone,
      S3_upload_file (PStr ''bucket'') (PBoundMethod ''get_zip_name'')
        (PStr ''/tmp/lmdo/demo-hello.zip''),
      Lambda_get_function ''hello'' [],
      Open_read (PStr ''policy.json''),
      IAM_create_role ''lmdo-demo-hello'' (PStr ''{}'')]
   \<and> fst (process demo_env (demo_config\<lparr>Lambda := Some [hello_with_role]\<rparr>) (start [])) =
     Inl (TypeError ''missing required positional arguments'')
   \<and> filter is_create_function
       (calls_of (trace (snd (process demo_env (demo_config\<lparr>Lambda := Some [hello_with_role]\<rparr>)
          (start []))))) = []"
  by code_simp

text \<open>
  C5.  The claim is that the artifact is uploaded under the key \<open>demo-hello.zip\<close>.  The
  only upload of the deploy pass passes the bound method \<open>self.get_zip_name\<close> as the
  key, not the string the method returns.
\<close>

theorem upload_key_is_the_method_object:
  "get_zip_name demo_env (FunctionName hello) = Inr ''demo-hello.zip''
   \<and> filter is_upload (calls_of (trace (snd (process demo_env demo_config (start []))))) =
     [S3_upload_file (PStr ''bucket'') (PBoundMethod ''get_zip_name'')
        (PStr ''/tmp/lmdo/demo-hello.zip'')]"
  by code_simp

text \<open>
  C9.  The claim is that a second deploy of an unchanged configuration updates the code
  of the functions the first deploy created.  The first run creates no function (it
  stops with \<open>TypeError\<close>), so the second run repeats it; and when \<open>demo-hello\<close> does
  exist remotely, the probe asks for \<open>hello\<close>, does not find it, and the run takes the
  create branch again instead of calling update-function-code.
\<close>

theorem second_deploy_does_not_update:
  "world (snd (process demo_env demo_config (start []))) = []
   \<and> fst (process demo_env demo_config (snd (process demo_env demo_config (start [])))) =
     Inl (TypeError ''missing required positional arguments'')
   \<and> filter is_update_function_code
       (calls_of (trace (snd (process demo_env demo_config
          (snd (process demo_env demo_config (start []))))))) = []
   \<and> fst (process demo_env demo_config (start [''demo-hello''])) =
     Inl (TypeError ''missing required positional arguments'')
   \<and> filter is_update_function_code
       (calls_of (trace (snd (process demo_env demo_config (start [''demo-hello'']))))) = []
   \<and> filter is_create_role
       (calls_of (trace (snd (process demo_env demo_config (start [''demo-hello'']))))) =
     [IAM_create_role ''lmdo-demo-hello'' (PStr ''{}'')]"
  by code_simp

section \<open>Packaging and cleanup\<close>

lemma calls_of_append: "calls_of (xs @ ys) = calls_of xs @ calls_of ys"
  by (induction xs rule: calls_of.induct) simp_all

lemma remove_zip_eq:
  assumes "returns_or_OSError (fst (external env
             (Os_remove (TMP_DIR env @ name_id env @ ''-'' @ f @ ''.zip'')) (world s)))"
  shows "remove_zip env f s =
     (Inr (),
      s\<lparr>world := snd (external env
                 (Os_remove (TMP_DIR env @ name_id env @ ''-'' @ f @ ''.zip'')) (world s)),
        trace := trace s @ [Call (Os_remove (TMP_DIR env @ name_id env @ ''-'' @ f @ ''.zip''))]\<rparr>)"
  using assms
  by (auto simp: remove_zip_def monad_defs name_eqs ext_call_eq returns_or_OSError_def
      split: sum.splits)

lemma remove_zip_trace:
  "trace (snd (remove_zip env f s)) =
     trace s @ [Call (Os_remove (TMP_DIR env @ name_id env @ ''-'' @ f @ ''.zip''))]"
  by (simp add: remove_zip_def monad_defs name_eqs ext_call_eq split: sum.splits)

lemma zip_function_falsy:
  assumes "returns_falsy (fst (external env
             (Zipper ''./'' (TMP_DIR env @ name_id env @ ''-'' @ f @ ''.zip'') (LAMBDA_EXCLUDE env))
             (world s)))"
  shows "zip_function env f s =
     (Inr (PBool False),
      s\<lparr>world := snd (external env
                 (Zipper ''./'' (TMP_DIR env @ name_id env @ ''-'' @ f @ ''.zip'')
                    (LAMBDA_EXCLUDE env)) (world s)),
        trace := trace s @
                 [Call (Zipper ''./'' (TMP_DIR env @ name_id env @ ''-'' @ f @ ''.zip'')
                    (LAMBDA_EXCLUDE env))]\<rparr>)"
  using assms
  by (auto simp: zip_function_def monad_defs name_eqs ext_call_eq returns_falsy_def
      split: sum.splits)

lemma zip_function_truthy:
  assumes "returns_truthy (fst (external env
             (Zipper ''./'' (TMP_DIR env @ name_id env @ ''-'' @ f @ ''.zip'') (LAMBDA_EXCLUDE env))
             (world s)))"
  shows "zip_function env f s =
     (Inr (PStr (TMP_DIR env @ name_id env @ ''-'' @ f @ ''.zip'')),
      s\<lparr>world := snd (external env
                 (Zipper ''./'' (TMP_DIR env @ name_id env @ ''-'' @ f @ ''.zip'')
                    (LAMBDA_EXCLUDE env)) (world s)),
        trace := trace s @
                 [Call (Zipper ''./'' (TMP_DIR env @ name_id env @ ''-'' @ f @ ''.zip'')
                    (LAMBDA_EXCLUDE env))]\<rparr>)"
  using assms
  by (auto simp: zip_function_def monad_defs name_eqs ext_call_eq returns_truthy_def
      split: sum.splits)

lemma process_lm_zip_fails:
  assumes z: "\<forall>w. returns_falsy (fst (external env
                (Zipper ''./'' (TMP_DIR env @ name_id env @ ''-'' @ FunctionName lm @ ''.zip'')
                   (LAMBDA_EXCLUDE env)) w))"
    and r: "\<forall>w. returns_or_OSError (fst (external env
                (Os_remove (TMP_DIR env @ name_id env @ ''-'' @ FunctionName lm @ ''.zip'')) w))"
  shows "fst (process_lm env cfg lm s) = Inr ()"
    and "new_events s (snd (process_lm env cfg lm s)) =
       [Call (Os_remove (TMP_DIR env @ name_id env @ ''-'' @ FunctionName lm @ ''.zip'')),
        Call (Zipper ''./'' (TMP_DIR env @ name_id env @ ''-'' @ FunctionName lm @ ''.zip'')
           (LAMBDA_EXCLUDE env)),
        Call (Os_remove (TMP_DIR env @ name_id env @ ''-'' @ FunctionName lm @ ''.zip''))]"
proof -
  obtain params where p: "build_params env cfg lm = Inr params"
    using build_params_Inr by blast
  show "fst (process_lm env cfg lm s) = Inr ()"
    using z r
    by (simp add: process_lm_def bindM_def liftE_def returnM_def p remove_zip_eq
        zip_function_falsy)
  show "new_events s (snd (process_lm env cfg lm s)) =
       [Call (Os_remove (TMP_DIR env @ name_id env @ ''-'' @ FunctionName lm @ ''.zip'')),
        Call (Zipper ''./'' (TMP_DIR env @ name_id env @ ''-'' @ FunctionName lm @ ''.zip'')
           (LAMBDA_EXCLUDE env)),
        Call (Os_remove (TMP_DIR env @ name_id env @ ''-'' @ FunctionName lm @ ''.zip''))]"
    using z r
    by (simp add: process_lm_def bindM_def liftE_def returnM_def p remove_zip_eq
        zip_function_falsy new_events_def)
qed

lemma process_lm_ends_with_removal:
  assumes "process_lm env cfg lm s = (Inr u, s')"
  shows "\<exists>evs. trace s' =
           evs @ [Call (Os_remove (TMP_DIR env @ name_id env @ ''-'' @ FunctionName lm @ ''.zip''))]"
proof -
  from assms obtain s5 where "remove_zip env (FunctionName lm) s5 = (Inr u, s')"
    unfolding process_lm_def by (elim bindM_Inr_elim)
  then show ?thesis
    using remove_zip_trace[where env = env and f = "FunctionName lm" and s = s5] by simp
qed

lemma zip_function_trace:
  "trace (snd (zip_function env f s)) =
     trace s @ [Call (Zipper ''./'' (TMP_DIR env @ name_id env @ ''-'' @ f @ ''.zip'')
                  (LAMBDA_EXCLUDE env))]"
  by (simp add: zip_function_def monad_defs name_eqs ext_call_eq split: sum.splits)

text \<open>
  The failure path of one run: when the first removal does not raise and packaging
  returns \<open>False\<close>, the loop body calls \<open>os.remove\<close>, the zip utility and
  \<open>os.remove\<close> again, and nothing else.
\<close>

lemma process_lm_packaging_failure:
  assumes "fst (remove_zip env (FunctionName lm) s) = Inr ()"
    and "fst (zip_function env (FunctionName lm) (snd (remove_zip env (FunctionName lm) s))) =
           Inr (PBool False)"
  shows "calls_of (new_events s (snd (process_lm env cfg lm s))) =
       [Os_remove (TMP_DIR env @ name_id env @ ''-'' @ FunctionName lm @ ''.zip''),
        Zipper ''./'' (TMP_DIR env @ name_id env @ ''-'' @ FunctionName lm @ ''.zip'')
           (LAMBDA_EXCLUDE env),
        Os_remove (TMP_DIR env @ name_id env @ ''-'' @ FunctionName lm @ ''.zip'')]"
proof -
  obtain params where p: "build_params env cfg lm = Inr params"
    using build_params_Inr by blast
  show ?thesis
    using assms
    by (simp add: process_lm_def bindM_alt liftE_def returnM_def p new_events_def
        remove_zip_trace zip_function_trace)
qed

text \<open>
  C6.  The claim is that a failed packaging step leads to no upload and no create or
  update call, and that the removal of the zip artifact is attempted on the success path
  as on the failure path.  The removal after the deploy step is the last statement of
  the loop body (line 237), outside any \<open>try\<close>: on the sample project, where packaging
  and upload succeed, the create branch raises \<open>TypeError\<close> and the update wrapper
  raises \<open>UnboundLocalError\<close>, and in both runs the only \<open>os.remove\<close> is the one
  before packaging.
\<close>

theorem cleanup_skipped_when_deploy_raises:
  "fst (process_lm demo_env demo_config hello (start [])) =
     Inl (TypeError ''missing required positional arguments'')
   \<and> calls_of (trace (snd (process_lm demo_env demo_config hello (start [])))) =
     [Os_remove ''/tmp/lmdo/demo-hello.zip'',
      Zipper ''./'' ''/tmp/lmdo/demo-hello.zip'' PNone,
      S3_upload_file (PStr ''bucket'') (PBoundMethod ''get_zip_name'')
        (PStr ''/tmp/lmdo/demo-hello.zip''),
      Lambda_get_function ''hello'' [],
      Open_read (PStr ''policy.json''),
      IAM_create_role ''lmdo-demo-hello'' (PStr ''{}'')]
   \<and> fst (process_lm demo_env demo_config hello (start [''hello''])) =
     Inl (UnboundLocalError ''response'')
   \<and> calls_of (trace (snd (process_lm demo_env demo_config hello (start [''hello''])))) =
     [Os_remove ''/tmp/lmdo/demo-hello.zip'',
      Zipper ''./'' ''/tmp/lmdo/demo-hello.zip'' PNone,
      S3_upload_file (PStr ''bucket'') (PBoundMethod ''get_zip_name'')
        (PStr ''/tmp/lmdo/demo-hello.zip''),
      Lambda_get_function ''hello'' [],
      Lambda_update_function_code ''demo-hello'' (PStr ''bucket'') ''demo-hello.zip'']"
  by code_simp

section \<open>Destroy\<close>

text \<open>
  The lemmas of this section are about the loop body of \<open>delete\<close> with the role test
  of line 53 read as \<open>not\<close>.
\<close>

lemma get_function_trace:
  "\<exists>evs. trace (snd (get_function env f kw s)) = trace s @ evs
         \<and> calls_of evs = [Lambda_get_function f kw]"
  by (auto simp: get_function_def monad_defs ext_call_eq split: sum.splits)

lemma delete_function_trace:
  "\<exists>evs. trace (snd (delete_function env f kw s)) = trace s @ evs
         \<and> calls_of evs = [Lambda_delete_function (name_id env @ ''-'' @ f) kw]"
  by (auto simp: delete_function_def monad_defs name_eqs ext_call_eq split: sum.splits)

lemma delete_role_trace:
  "trace (snd (delete_role env role s)) = trace s @ [Call (IAM_delete_role role)]"
  by (simp add: delete_role_def monad_defs ext_call_eq split: sum.splits)

lemma delete_lm_calls:
  "calls_of (new_events s (snd (delete_lm env lm s))) =
     (case fst (get_function env (FunctionName lm) [] s) of
        Inl e \<Rightarrow> [Lambda_get_function (FunctionName lm) []]
      | Inr info \<Rightarrow>
          [Lambda_get_function (FunctionName lm) [],
           Lambda_delete_function (name_id env @ ''-'' @ FunctionName lm) []] @
          (case fst (delete_function env (FunctionName lm) []
                       (snd (get_function env (FunctionName lm) [] s))) of
             Inl e \<Rightarrow> []
           | Inr r \<Rightarrow>
               if truthy (Role lm) then []
               else (case py_get info ''Configuration'' of
                       Inl e \<Rightarrow> []
                     | Inr c \<Rightarrow> (case py_get c ''Role'' of
                                  Inl e \<Rightarrow> []
                                | Inr role \<Rightarrow> [IAM_delete_role role]))))"
proof -
  obtain evs1 where e1: "trace (snd (get_function env (FunctionName lm) [] s)) = trace s @ evs1"
    "calls_of evs1 = [Lambda_get_function (FunctionName lm) []]"
    using get_function_trace by blast
  obtain evs2 where e2: "trace (snd (delete_function env (FunctionName lm) []
        (snd (get_function env (FunctionName lm) [] s)))) =
      trace (snd (get_function env (FunctionName lm) [] s)) @ evs2"
    "calls_of evs2 = [Lambda_delete_function (name_id env @ ''-'' @ FunctionName lm) []]"
    using delete_function_trace by blast
  show ?thesis
    by (simp add: delete_lm_def bindM_alt liftE_def returnM_def new_events_def e1 e2
        delete_role_trace calls_of_append split: sum.splits)
qed

lemma delete_lm_result_when_probe_False:
  assumes "\<not> truthy (Role lm)"
    and "fst (get_function env (FunctionName lm) [] s) = Inr (PBool False)"
  shows "fst (delete_lm env lm s) =
     (case fst (delete_function env (FunctionName lm) []
                  (snd (get_function env (FunctionName lm) [] s))) of
        Inl e \<Rightarrow> Inl e
      | Inr r \<Rightarrow> Inl (AttributeError ''get''))"
  using assms
  by (simp add: delete_lm_def bindM_alt liftE_def split: sum.splits)

lemma delete_loop_raises:
  assumes "lm \<in> set lms" and "\<not> truthy (Role lm)"
    and "\<forall>s0. fst (get_function env (FunctionName lm) [] s0) = Inr (PBool False)"
  shows "\<exists>e. fst (delete_loop env lms s) = Inl e"
  using assms(1)
proof (induction lms arbitrary: s)
  case Nil
  then show ?case by simp
next
  case (Cons a lms)
  show ?case
  proof (cases "fst (delete_lm env a s)")
    case (Inl e)
    then show ?thesis by (simp add: bindM_alt)
  next
    case (Inr u)
    have "a \<noteq> lm"
    proof
      assume "a = lm"
      then have "\<exists>e. fst (delete_lm env a s) = Inl e"
        using delete_lm_result_when_probe_False[OF assms(2), of env s] assms(3)
        by (simp split: sum.splits)
      with Inr show False by simp
    qed
    with Cons.prems have "lm \<in> set lms" by simp
    from Cons.IH[OF this] Inr show ?thesis by (simp add: bindM_alt)
  qed
qed


section \<open>Roles\<close>

text \<open>
  The calls of the create branch of the deploy pass, and the role calls of the loop body
  of \<open>delete\<close> with the role test of line 53 read as \<open>not\<close>.
\<close>

lemma returns_truthyD: "returns_truthy r \<Longrightarrow> \<exists>v. r = Inr v \<and> truthy v"
  by (cases r) (simp_all add: returns_truthy_def)

lemma get_function_misses:
  assumes "probe_misses (fst (external env (Lambda_get_function f kw) (world s)))"
  shows "get_function env f kw s =
     (Inr (PBool False),
      s\<lparr>world := snd (external env (Lambda_get_function f kw) (world s)),
        trace := trace s @ [Call (Lambda_get_function f kw)]\<rparr>)"
  using assms
  by (auto simp: get_function_def monad_defs ext_call_eq probe_misses_def split: sum.splits)

lemma create_role_trace:
  assumes "fst (external env (Open_read pp) (world s)) = Inr policy"
    and "returns_value (fst (external env (IAM_create_role rn policy)
           (snd (external env (Open_read pp) (world s)))))"
  shows "trace (snd (create_role env rn pp s)) =
           trace s @ [Call (Open_read pp), Call (IAM_create_role rn policy)]"
  using assms
  by (auto simp: create_role_def monad_defs ext_call_eq returns_value_def split: sum.splits)

lemma process_lm_create_branch_calls:
  assumes nr: "\<not> truthy (Role lm)"
    and rm: "\<forall>w. returns_or_OSError (fst (external env
               (Os_remove (TMP_DIR env @ name_id env @ ''-'' @ FunctionName lm @ ''.zip'')) w))"
    and z: "\<forall>w. returns_truthy (fst (external env
               (Zipper ''./'' (TMP_DIR env @ name_id env @ ''-'' @ FunctionName lm @ ''.zip'')
                  (LAMBDA_EXCLUDE env)) w))"
    and up: "\<forall>w. returns_truthy (fst (external env
               (S3_upload_file (S3Bucket lm) (PBoundMethod ''get_zip_name'')
                  (PStr (TMP_DIR env @ name_id env @ ''-'' @ FunctionName lm @ ''.zip''))) w))"
    and pr: "\<forall>w. probe_misses (fst (external env (Lambda_get_function (FunctionName lm) []) w))"
    and pol: "\<forall>w. fst (external env (Open_read (RolePolicyDocument lm)) w) = Inr policy"
    and iam: "\<forall>w. returns_value (fst (external env
               (IAM_create_role (''lmdo-'' @ name_id env @ ''-'' @ FunctionName lm) policy) w))"
  shows "calls_of (new_events s (snd (process_lm env cfg lm s))) =
     [Os_remove (TMP_DIR env @ name_id env @ ''-'' @ FunctionName lm @ ''.zip''),
      Zipper ''./'' (TMP_DIR env @ name_id env @ ''-'' @ FunctionName lm @ ''.zip'')
        (LAMBDA_EXCLUDE env),
      S3_upload_file (S3Bucket lm) (PBoundMethod ''get_zip_name'')
        (PStr (TMP_DIR env @ name_id env @ ''-'' @ FunctionName lm @ ''.zip'')),
      Lambda_get_function (FunctionName lm) [],
      Open_read (RolePolicyDocument lm),
      IAM_create_role (''lmdo-'' @ name_id env @ ''-'' @ FunctionName lm) policy]"
proof -
  obtain params where p: "build_params env cfg lm = Inr params"
    using build_params_Inr by blast
  have up': "\<And>w. \<exists>v. fst (external env
               (S3_upload_file (S3Bucket lm) (PBoundMethod ''get_zip_name'')
                  (PStr (TMP_DIR env @ name_id env @ ''-'' @ FunctionName lm @ ''.zip''))) w) = Inr v
               \<and> truthy v"
    using up returns_truthyD by blast
  define s1 where "s1 = snd (remove_zip env (FunctionName lm) s)"
  define s2 where "s2 = snd (zip_function env (FunctionName lm) s1)"
  define s3 where "s3 = snd (ext_call env (S3_upload_file (S3Bucket lm) (PBoundMethod ''get_zip_name'')
                  (PStr (TMP_DIR env @ name_id env @ ''-'' @ FunctionName lm @ ''.zip''))) s2)"
  define s4 where "s4 = snd (get_function env (FunctionName lm) [] s3)"
  define s5 where "s5 = snd (create_role env (''lmdo-'' @ name_id env @ ''-'' @ FunctionName lm)
                  (RolePolicyDocument lm) s4)"
  have r1: "remove_zip env (FunctionName lm) s = (Inr (), s1)"
    and t1: "trace s1 = trace s @
       [Call (Os_remove (TMP_DIR env @ name_id env @ ''-'' @ FunctionName lm @ ''.zip''))]"
    using rm by (simp_all add: s1_def remove_zip_eq)
  have r2: "zip_function env (FunctionName lm) s1 =
       (Inr (PStr (TMP_DIR env @ name_id env @ ''-'' @ FunctionName lm @ ''.zip'')), s2)"
    and t2: "trace s2 = trace s1 @
       [Call (Zipper ''./'' (TMP_DIR env @ name_id env @ ''-'' @ FunctionName lm @ ''.zip'')
          (LAMBDA_EXCLUDE env))]"
    using z by (simp_all add: s2_def zip_function_truthy)
  obtain v where r3: "ext_call env (S3_upload_file (S3Bucket lm) (PBoundMethod ''get_zip_name'')
                  (PStr (TMP_DIR env @ name_id env @ ''-'' @ FunctionName lm @ ''.zip''))) s2 =
                  (Inr v, s3)" and tv: "truthy v"
    using up'[of "world s2"] by (auto simp: s3_def ext_call_eq)
  have t3: "trace s3 = trace s2 @
       [Call (S3_upload_file (S3Bucket lm) (PBoundMethod ''get_zip_name'')
                  (PStr (TMP_DIR env @ name_id env @ ''-'' @ FunctionName lm @ ''.zip'')))]"
    by (simp add: s3_def ext_call_eq)
  have r4: "get_function env (FunctionName lm) [] s3 = (Inr (PBool False), s4)"
    and t4: "trace s4 = trace s3 @ [Call (Lambda_get_function (FunctionName lm) [])]"
    using pr by (simp_all add: s4_def get_function_misses)
  have t5: "trace s5 = trace s4 @
       [Call (Open_read (RolePolicyDocument lm)),
        Call (IAM_create_role (''lmdo-'' @ name_id env @ ''-'' @ FunctionName lm) policy)]"
    unfolding s5_def using pol iam by (intro create_role_trace) simp_all
  have fin: "snd (process_lm env cfg lm s) = s5"
    using nr tv
    by (simp add: process_lm_def bindM_alt liftE_def returnM_def p r1 r2 r3[simplified] r4
        name_eqs create_function_kwargs_never_binds[OF p] s5_def split: sum.splits)
  show ?thesis
    by (simp add: fin new_events_def t1 t2 t3 t4 t5)
qed

lemma delete_lm_with_role_no_role_call:
  assumes "truthy (Role lm)"
  shows "filter is_delete_role (calls_of (new_events s (snd (delete_lm env lm s)))) = []"
  using assms by (simp add: delete_lm_calls split: sum.splits)

lemma delete_lm_deletes_probed_role:
  assumes "\<not> truthy (Role lm)"
    and "fst (get_function env (FunctionName lm) [] s) = Inr info"
    and "py_get info ''Configuration'' = Inr c"
    and "py_get c ''Role'' = Inr role"
    and "returns_value (fst (delete_function env (FunctionName lm) []
           (snd (get_function env (FunctionName lm) [] s))))"
  shows "calls_of (new_events s (snd (delete_lm env lm s))) =
     [Lambda_get_function (FunctionName lm) [],
      Lambda_delete_function (name_id env @ ''-'' @ FunctionName lm) [],
      IAM_delete_role role]"
  using assms by (simp add: delete_lm_calls returns_value_def split: sum.splits)


text \<open>
  C3.  The claim is that for an entry with no explicit role deploy creates exactly one
  role before creating the function, that destroy deletes the role of the function, and
  that with an explicit role destroy deletes none.  On the sample project deploy creates
  the role \<open>lmdo-demo-hello\<close> and then stops with \<open>TypeError\<close>: no function is
  created, and a second run creates the role again.  Destroy of the deployed
  \<open>demo-hello\<close> probes the bare name \<open>hello\<close>, gets \<open>False\<close>, deletes the
  function and raises \<open>AttributeError\<close> at \<open>info.get('Configuration')\<close>: the role
  stays.  With a second function named \<open>hello\<close> deployed, destroy deletes the
  function \<open>demo-hello\<close> and the role of \<open>hello\<close>.  As shipped, \<open>delete\<close> ends in
  \<open>SyntaxError\<close> before any call.
\<close>

theorem roles_orphaned_by_deploy_and_destroy:
  "\<not> truthy (Role hello)
   \<and> fst (process demo_env demo_config (start [])) =
       Inl (TypeError ''missing required positional arguments'')
   \<and> filter is_create_role (calls_of (trace (snd (process demo_env demo_config (start []))))) =
       [IAM_create_role ''lmdo-demo-hello'' (PStr ''{}'')]
   \<and> filter is_create_function
        (calls_of (trace (snd (process demo_env demo_config (start []))))) = []
   \<and> filter is_create_role
        (calls_of (trace (snd (process demo_env demo_config
           (snd (process demo_env demo_config (start []))))))) =
       [IAM_create_role ''lmdo-demo-hello'' (PStr ''{}''),
        IAM_create_role ''lmdo-demo-hello'' (PStr ''{}'')]
   \<and> fst (delete demo_env demo_config (start [''demo-hello''])) = Inl (AttributeError ''get'')
   \<and> calls_of (trace (snd (delete demo_env demo_config (start [''demo-hello''])))) =
       [Lambda_get_function ''hello'' [], Lambda_delete_function ''demo-hello'' []]
   \<and> world (snd (delete demo_env demo_config (start [''demo-hello'']))) = []
   \<and> calls_of (trace (snd (delete named_roles_env demo_config (start [''hello'', ''demo-hello''])))) =
       [Lambda_get_function ''hello'' [], Lambda_delete_function ''demo-hello'' [],
        IAM_delete_role (PStr ''role-of-hello'')]
   \<and> world (snd (delete named_roles_env demo_config (start [''hello'', ''demo-hello'']))) =
       [''hello'']
   \<and> fst (delete_as_shipped demo_env demo_config (start [''demo-hello''])) =
       Inl (SyntaxError ''invalid syntax'')"
  by code_simp

section \<open>The update branch of the deploy pass\<close>

lemma py_get_truthy_source:
  assumes "py_get v k = Inr c" and "truthy c"
  shows "truthy v"
  using assms by (cases v) (auto split: option.splits)

lemma get_function_finds:
  assumes "probe_finds (fst (external env (Lambda_get_function f kw) (world s)))"
  shows "\<exists>v. get_function env f kw s =
           (Inr v, s\<lparr>world := snd (external env (Lambda_get_function f kw) (world s)),
                     trace := trace s @ [Call (Lambda_get_function f kw)]\<rparr>) \<and> truthy v"
  using assms
  by (auto simp: get_function_def monad_defs ext_call_eq probe_finds_def
      split: sum.splits dest: py_get_truthy_source)

lemma update_function_code_trace:
  "\<exists>evs. trace (snd (update_function_code env f b s)) = trace s @ evs
         \<and> calls_of evs =
             [Lambda_update_function_code (name_id env @ ''-'' @ f) b
                (name_id env @ ''-'' @ f @ ''.zip'')]"
  by (auto simp: update_function_code_def monad_defs name_eqs ext_call_eq split: sum.splits)

lemma process_lm_update_branch_calls:
  assumes rm: "\<forall>w. returns_or_OSError (fst (external env
               (Os_remove (TMP_DIR env @ name_id env @ ''-'' @ FunctionName lm @ ''.zip'')) w))"
    and z: "\<forall>w. returns_truthy (fst (external env
               (Zipper ''./'' (TMP_DIR env @ name_id env @ ''-'' @ FunctionName lm @ ''.zip'')
                  (LAMBDA_EXCLUDE env)) w))"
    and up: "\<forall>w. returns_truthy (fst (external env
               (S3_upload_file (S3Bucket lm) (PBoundMethod ''get_zip_name'')
                  (PStr (TMP_DIR env @ name_id env @ ''-'' @ FunctionName lm @ ''.zip''))) w))"
    and pf: "\<forall>w. probe_finds (fst (external env (Lambda_get_function (FunctionName lm) []) w))"
  shows "filter is_update_function_code (calls_of (new_events s (snd (process_lm env cfg lm s)))) =
           [Lambda_update_function_code (name_id env @ ''-'' @ FunctionName lm) (S3Bucket lm)
              (name_id env @ ''-'' @ FunctionName lm @ ''.zip'')]"
    and "filter is_create_function (calls_of (new_events s (snd (process_lm env cfg lm s)))) = []"
    and "filter is_create_role (calls_of (new_events s (snd (process_lm env cfg lm s)))) = []"
proof -
  obtain params where p: "build_params env cfg lm = Inr params"
    using build_params_Inr by blast
  have up': "\<And>w. \<exists>v. fst (external env
               (S3_upload_file (S3Bucket lm) (PBoundMethod ''get_zip_name'')
                  (PStr (TMP_DIR env @ name_id env @ ''-'' @ FunctionName lm @ ''.zip''))) w) = Inr v
               \<and> truthy v"
    using up returns_truthyD by blast
  define s1 where "s1 = snd (remove_zip env (FunctionName lm) s)"
  define s2 where "s2 = snd (zip_function env (FunctionName lm) s1)"
  define s3 where "s3 = snd (ext_call env (S3_upload_file (S3Bucket lm) (PBoundMethod ''get_zip_name'')
                  (PStr (TMP_DIR env @ name_id env @ ''-'' @ FunctionName lm @ ''.zip''))) s2)"
  define s4 where "s4 = snd (get_function env (FunctionName lm) [] s3)"
  define s5 where "s5 = snd (update_function_code env (FunctionName lm) (S3Bucket lm) s4)"
  have r1: "remove_zip env (FunctionName lm) s = (Inr (), s1)"
    and t1: "trace s1 = trace s @
       [Call (Os_remove (TMP_DIR env @ name_id env @ ''-'' @ FunctionName lm @ ''.zip''))]"
    using rm by (simp_all add: s1_def remove_zip_eq)
  have r2: "zip_function env (FunctionName lm) s1 =
       (Inr (PStr (TMP_DIR env @ name_id env @ ''-'' @ FunctionName lm @ ''.zip'')), s2)"
    and t2: "trace s2 = trace s1 @
       [Call (Zipper ''./'' (TMP_DIR env @ name_id env @ ''-'' @ FunctionName lm @ ''.zip'')
          (LAMBDA_EXCLUDE env))]"
    using z by (simp_all add: s2_def zip_function_truthy)
  obtain v where r3: "ext_call env (S3_upload_file (S3Bucket lm) (PBoundMethod ''get_zip_name'')
                  (PStr (TMP_DIR env @ name_id env @ ''-'' @ FunctionName lm @ ''.zip''))) s2 =
                  (Inr v, s3)" and tv: "truthy v"
    using up'[of "world s2"] by (auto simp: s3_def ext_call_eq)
  have t3: "trace s3 = trace s2 @
       [Call (S3_upload_file (S3Bucket lm) (PBoundMethod ''get_zip_name'')
                  (PStr (TMP_DIR env @ name_id env @ ''-'' @ FunctionName lm @ ''.zip'')))]"
    by (simp add: s3_def ext_call_eq)
  obtain found where r4: "get_function env (FunctionName lm) [] s3 = (Inr found, s4)"
    and tf: "truthy found"
    and t4: "trace s4 = trace s3 @ [Call (Lambda_get_function (FunctionName lm) [])]"
    using get_function_finds[OF pf[rule_format, of "world s3"]] by (auto simp: s4_def)
  obtain evs where t5: "trace s5 = trace s4 @ evs"
    and c5: "calls_of evs =
       [Lambda_update_function_code (name_id env @ ''-'' @ FunctionName lm) (S3Bucket lm)
          (name_id env @ ''-'' @ FunctionName lm @ ''.zip'')]"
    unfolding s5_def using update_function_code_trace by blast
  have fin: "snd (process_lm env cfg lm s) = s5
      \<or> snd (process_lm env cfg lm s) = snd (remove_zip env (FunctionName lm) s5)"
    using tv tf
    by (simp add: process_lm_def bindM_alt liftE_def returnM_def p r1 r2 r3[simplified] r4
        s5_def split: sum.splits)
  have tr: "\<exists>rest. trace (snd (process_lm env cfg lm s)) = trace s @
       [Call (Os_remove (TMP_DIR env @ name_id env @ ''-'' @ FunctionName lm @ ''.zip'')),
        Call (Zipper ''./'' (TMP_DIR env @ name_id env @ ''-'' @ FunctionName lm @ ''.zip'')
          (LAMBDA_EXCLUDE env)),
        Call (S3_upload_file (S3Bucket lm) (PBoundMethod ''get_zip_name'')
                  (PStr (TMP_DIR env @ name_id env @ ''-'' @ FunctionName lm @ ''.zip''))),
        Call (Lambda_get_function (FunctionName lm) [])] @ evs @ rest
       \<and> (rest = [] \<or> rest =
            [Call (Os_remove (TMP_DIR env @ name_id env @ ''-'' @ FunctionName lm @ ''.zip''))])"
  proof -
    from fin consider (stopped) "snd (process_lm env cfg lm s) = s5"
      | (cleaned) "snd (process_lm env cfg lm s) = snd (remove_zip env (FunctionName lm) s5)"
      by blast
    then show ?thesis
    proof cases
      case stopped
      show ?thesis
        by (rule exI[of _ "[]"]) (simp add: stopped t1 t2 t3 t4 t5)
    next
      case cleaned
      show ?thesis
        by (rule exI[of _ "[Call (Os_remove
              (TMP_DIR env @ name_id env @ ''-'' @ FunctionName lm @ ''.zip''))]"])
           (simp add: cleaned remove_zip_trace t1 t2 t3 t4 t5)
    qed
  qed
  then obtain rest where full: "new_events s (snd (process_lm env cfg lm s)) =
       [Call (Os_remove (TMP_DIR env @ name_id env @ ''-'' @ FunctionName lm @ ''.zip'')),
        Call (Zipper ''./'' (TMP_DIR env @ name_id env @ ''-'' @ FunctionName lm @ ''.zip'')
          (LAMBDA_EXCLUDE env)),
        Call (S3_upload_file (S3Bucket lm) (PBoundMethod ''get_zip_name'')
                  (PStr (TMP_DIR env @ name_id env @ ''-'' @ FunctionName lm @ ''.zip''))),
        Call (Lambda_get_function (FunctionName lm) [])] @ evs @ rest"
    and rest: "rest = [] \<or> rest =
            [Call (Os_remove (TMP_DIR env @ name_id env @ ''-'' @ FunctionName lm @ ''.zip''))]"
    by (auto simp: new_events_def)
  show "filter is_update_function_code (calls_of (new_events s (snd (process_lm env cfg lm s)))) =
           [Lambda_update_function_code (name_id env @ ''-'' @ FunctionName lm) (S3Bucket lm)
              (name_id env @ ''-'' @ FunctionName lm @ ''.zip'')]"
    using rest by (auto simp: full calls_of_append c5)
  show "filter is_create_function (calls_of (new_events s (snd (process_lm env cfg lm s)))) = []"
    using rest by (auto simp: full calls_of_append c5)
  show "filter is_create_role (calls_of (new_events s (snd (process_lm env cfg lm s)))) = []"
    using rest by (auto simp: full calls_of_append c5)
qed

end
